theory Spec2Isabelle
  imports Main "HOL-Library.Word"
begin

unbundle bit_operations_syntax

section \<open>Exceptions, external calls and programs\<close>

text \<open>
  The deployment tool is glue over three collaborators: the \<open>git\<close> helper module, the
  boto S3 connection and the boto Elastic Beanstalk connection. Python strings of the
  (Python 2) source are byte strings and are modelled as \<open>string\<close>.

  An exception is a value. \<open>SomeException\<close> is the class declared in \<open>aws.py\<close>
  (line 89); \<open>S3CreateError\<close> is the boto class imported there, with its
  \<open>error_code\<close> and message; \<open>BotoServerError\<close> stands for every other error
  response of a boto connection (error code and message); \<open>AttributeError\<close> carries the
  name of the attribute that was not found; \<open>SystemExit\<close> is raised by \<open>sys.exit\<close>.
\<close>

datatype exn =
    SomeException string
  | S3CreateError string string
  | BotoServerError string string
  | AttributeError string
  | SystemExit nat
  | OtherError string

fun message :: "exn \<Rightarrow> string" where
  "message (SomeException m) = m"
| "message (S3CreateError c m) = m"
| "message (BotoServerError c m) = m"
| "message (AttributeError a) = a"
| "message (SystemExit n) = []"
| "message (OtherError m) = m"

text \<open>
  Every call that leaves the process, and every line printed, is recorded in a trace, with
  the arguments the code passed. The arguments of \<open>EbCreateEnvironment\<close> are application
  name, environment name, version label and solution stack; those of
  \<open>EbUpdateEnvironment\<close> are environment name and version label; those of
  \<open>EbCreateApplicationVersion\<close> are application name, version label, bucket, key and
  description; those of \<open>S3CreateBucket\<close> are bucket name and location; those of
  \<open>S3SetContentsFromFilename\<close> are bucket, key and file name.
\<close>

datatype event =
    GitGetApplicationName
  | GitCreatePackage
  | GitGetCurrentBranch
  | S3ConnectToRegion string
  | S3CreateBucket string string
  | S3GetBucket string
  | S3SetContentsFromFilename string string string
  | EbConnectToRegion string
  | EbCreateApplication string
  | EbCreateEnvironment string string string string
  | EbUpdateEnvironment string string
  | EbTerminateEnvironment string
  | EbCreateApplicationVersion string string string string string
  | Stdout string
  | Stderr string

type_synonym trace = "event list"

text \<open>
  The collaborators are a parameter: each operation answers from the trace so far and its
  arguments, with an exception or a value. Nothing is assumed about them.
\<close>

record provider =
  git_get_application_name :: "trace \<Rightarrow> exn + string"
  git_create_package :: "trace \<Rightarrow> exn + string \<times> string"
  git_get_current_branch :: "trace \<Rightarrow> exn + string"
  s3_connect_to_region :: "trace \<Rightarrow> string \<Rightarrow> exn + unit"
  conn_create_bucket :: "trace \<Rightarrow> string \<Rightarrow> string \<Rightarrow> exn + unit"
  conn_get_bucket :: "trace \<Rightarrow> string \<Rightarrow> exn + unit"
  key_set_contents_from_filename :: "trace \<Rightarrow> string \<Rightarrow> string \<Rightarrow> string \<Rightarrow> exn + unit"
  beanstalk_connect_to_region :: "trace \<Rightarrow> string \<Rightarrow> exn + unit"
  conn_create_application :: "trace \<Rightarrow> string \<Rightarrow> exn + unit"
  conn_create_environment :: "trace \<Rightarrow> string \<Rightarrow> string \<Rightarrow> string \<Rightarrow> string \<Rightarrow> exn + unit"
  conn_update_environment :: "trace \<Rightarrow> string \<Rightarrow> string \<Rightarrow> exn + unit"
  conn_terminate_environment :: "trace \<Rightarrow> string \<Rightarrow> exn + unit"
  conn_create_application_version ::
    "trace \<Rightarrow> string \<Rightarrow> string \<Rightarrow> string \<Rightarrow> string \<Rightarrow> string \<Rightarrow> exn + unit"

text \<open>
  A program takes the trace and returns its result, an exception (\<open>Inl\<close>) or a value
  (\<open>Inr\<close>), with the extended trace.
\<close>

type_synonym 'a prog = "trace \<Rightarrow> (exn + 'a) \<times> trace"

definition ret :: "'a \<Rightarrow> 'a prog" where
  "ret x tr = (Inr x, tr)"

definition raise :: "exn \<Rightarrow> 'a prog" where
  "raise e tr = (Inl e, tr)"

definition seq :: "'a prog \<Rightarrow> ('a \<Rightarrow> 'b prog) \<Rightarrow> 'b prog" where
  "seq m f tr = (case m tr of (Inl e, tr') \<Rightarrow> (Inl e, tr') | (Inr x, tr') \<Rightarrow> f x tr')"

definition try_except :: "'a prog \<Rightarrow> (exn \<Rightarrow> 'a prog) \<Rightarrow> 'a prog" where
  "try_except m h tr = (case m tr of (Inl e, tr') \<Rightarrow> h e tr' | (Inr x, tr') \<Rightarrow> (Inr x, tr'))"

definition external :: "event \<Rightarrow> (trace \<Rightarrow> exn + 'a) \<Rightarrow> 'a prog" where
  "external ev f tr = (f tr, tr @ [ev])"

definition print_stdout :: "string \<Rightarrow> unit prog" where
  "print_stdout s tr = (Inr (), tr @ [Stdout s])"

definition print_stderr :: "string \<Rightarrow> unit prog" where
  "print_stderr s tr = (Inr (), tr @ [Stderr s])"

fun for_each :: "('a \<Rightarrow> unit prog) \<Rightarrow> 'a list \<Rightarrow> unit prog" where
  "for_each f [] = ret ()"
| "for_each f (x # xs) = seq (f x) (\<lambda>_. for_each f xs)"

section \<open>String helpers of the Python library\<close>

definition startswith :: "string \<Rightarrow> string \<Rightarrow> bool" where
  "startswith s p = (take (length p) s = p)"

text \<open>\<open>os.path.basename\<close>: what follows the last slash.\<close>

definition basename :: "string \<Rightarrow> string" where
  "basename p = rev (takeWhile (\<lambda>c. c \<noteq> CHR ''/'') (rev p))"

section \<open>SHA-1 as computed by hashlib\<close>

text \<open>
  \<open>hashlib.sha1(s).hexdigest()\<close> on a byte string: the message is padded, cut into
  blocks of sixteen big-endian 32-bit words, and each block is compressed in eighty steps
  into the five words of the state, which are printed as forty lower-case hexadecimal
  digits.
\<close>

type_synonym u32 = "32 word"

definition rotl :: "nat \<Rightarrow> u32 \<Rightarrow> u32" where
  "rotl n x = push_bit n x OR drop_bit (32 - n) x"

text \<open>
  Padding: the message bytes, the byte \<open>0x80\<close>, zero bytes up to 56 modulo 64, and the
  length of the message in bits as eight big-endian bytes.
\<close>

definition sha1_pad :: "string \<Rightarrow> u32 list" where
  "sha1_pad s =
     (let n = length s
      in map of_char s @ [0x80] @ replicate ((119 - n mod 64) mod 64) 0
         @ map (\<lambda>i. of_nat ((8 * n) div 2 ^ (8 * i) mod 256)) (rev [0..<8]))"

fun be_words :: "u32 list \<Rightarrow> u32 list" where
  "be_words (a # b # c # d # bs) =
     (push_bit 24 a OR push_bit 16 b OR push_bit 8 c OR d) # be_words bs"
| "be_words _ = []"

text \<open>The message schedule: \<open>schedule k w\<close> extends \<open>w\<close> by \<open>k\<close> words.\<close>

fun schedule :: "nat \<Rightarrow> u32 list \<Rightarrow> u32 list" where
  "schedule 0 w = w"
| "schedule (Suc k) w =
     (let n = length w
      in schedule k
           (w @ [rotl 1 (w ! (n - 3) XOR w ! (n - 8) XOR w ! (n - 14) XOR w ! (n - 16))]))"

definition ch :: "u32 \<Rightarrow> u32 \<Rightarrow> u32 \<Rightarrow> u32" where
  "ch b c d = (b AND c) OR (NOT b AND d)"

definition parity :: "u32 \<Rightarrow> u32 \<Rightarrow> u32 \<Rightarrow> u32" where
  "parity b c d = b XOR c XOR d"

definition maj :: "u32 \<Rightarrow> u32 \<Rightarrow> u32 \<Rightarrow> u32" where
  "maj b c d = (b AND c) OR (b AND d) OR (c AND d)"

type_synonym sha1_state = "u32 \<times> u32 \<times> u32 \<times> u32 \<times> u32"

fun sha1_step ::
  "(u32 \<Rightarrow> u32 \<Rightarrow> u32 \<Rightarrow> u32) \<Rightarrow> u32 \<Rightarrow> sha1_state \<Rightarrow> u32 \<Rightarrow> sha1_state" where
  "sha1_step f k (a, b, c, d, e) w = (rotl 5 a + f b c d + e + k + w, a, rotl 30 b, c, d)"

fun add_state :: "sha1_state \<Rightarrow> sha1_state \<Rightarrow> sha1_state" where
  "add_state (h0, h1, h2, h3, h4) (a, b, c, d, e) = (h0 + a, h1 + b, h2 + c, h3 + d, h4 + e)"

text \<open>One block: four rounds of twenty steps, each with its function and constant.\<close>

definition sha1_block :: "sha1_state \<Rightarrow> u32 list \<Rightarrow> sha1_state" where
  "sha1_block h ws =
     (let w = schedule 64 ws;
          s1 = foldl (sha1_step ch 0x5A827999) h (take 20 w);
          s2 = foldl (sha1_step parity 0x6ED9EBA1) s1 (take 20 (drop 20 w));
          s3 = foldl (sha1_step maj 0x8F1BBCDC) s2 (take 20 (drop 40 w));
          s4 = foldl (sha1_step parity 0xCA62C1D6) s3 (drop 60 w)
      in add_state h s4)"

definition sha1_blocks :: "u32 list \<Rightarrow> sha1_state" where
  "sha1_blocks ws =
     foldl sha1_block (0x67452301, 0xEFCDAB89, 0x98BADCFE, 0x10325476, 0xC3D2E1F0)
       (map (\<lambda>i. take 16 (drop (16 * i) ws)) [0..<length ws div 16])"

definition hex_chars :: string where
  "hex_chars = ''0123456789abcdef''"

definition hex_digit :: "nat \<Rightarrow> char" where
  "hex_digit n = hex_chars ! (n mod 16)"

definition hex_word :: "u32 \<Rightarrow> string" where
  "hex_word w = map (\<lambda>i. hex_digit (unat (drop_bit (4 * i) w))) (rev [0..<8])"

fun hex_state :: "sha1_state \<Rightarrow> string" where
  "hex_state (h0, h1, h2, h3, h4) = concat (map hex_word [h0, h1, h2, h3, h4])"

definition sha1_hexdigest :: "string \<Rightarrow> string" where
  "sha1_hexdigest s = hex_state (sha1_blocks (be_words (sha1_pad s)))"

section \<open>The clients of aws.py\<close>

record S3Client =
  s3_region :: string
  s3_options :: "(string \<times> string) list"

record BeanstalkClient =
  eb_region :: string
  eb_options :: "(string \<times> string) list"

record Client =
  client_s3 :: S3Client
  client_beanstalk :: BeanstalkClient
  client_application_name :: string

subsection \<open>S3Client\<close>

definition S3Client_init :: "provider \<Rightarrow> string \<Rightarrow> S3Client prog" where
  "S3Client_init P region =
     seq (external (S3ConnectToRegion region) (\<lambda>tr. s3_connect_to_region P tr region))
       (\<lambda>_. ret \<lparr>s3_region = region, s3_options = []\<rparr>)"

definition bucket_location :: "string \<Rightarrow> string" where
  "bucket_location region = (if startswith region ''eu'' then ''EU'' else [])"

definition create_bucket :: "provider \<Rightarrow> S3Client \<Rightarrow> string \<Rightarrow> unit prog" where
  "create_bucket P self application_name =
     (let location = bucket_location (s3_region self)
      in try_except
           (external (S3CreateBucket application_name location)
              (\<lambda>tr. conn_create_bucket P tr application_name location))
           (\<lambda>e. case e of
                  S3CreateError error_code m \<Rightarrow>
                    if ''BucketAlreadyOwnedByYou'' \<noteq> error_code then raise e else ret ()
                | _ \<Rightarrow> raise e))"

definition upload_package :: "provider \<Rightarrow> S3Client \<Rightarrow> string \<Rightarrow> string \<Rightarrow> (string \<times> string) prog" where
  "upload_package P self application_name package_path =
     seq (external (S3GetBucket application_name) (\<lambda>tr. conn_get_bucket P tr application_name))
       (\<lambda>bucket.
          let key = basename package_path
          in seq (external (S3SetContentsFromFilename application_name key package_path)
                    (\<lambda>tr. key_set_contents_from_filename P tr application_name key package_path))
               (\<lambda>_. ret (application_name, key)))"

subsection \<open>BeanstalkClient\<close>

definition DEFAULT_SOLUTION_STACK :: string where
  "DEFAULT_SOLUTION_STACK = ''64bit Amazon Linux 2014.03 v1.0.9 running Python 2.7''"

definition BeanstalkClient_init :: "provider \<Rightarrow> string \<Rightarrow> BeanstalkClient prog" where
  "BeanstalkClient_init P region =
     seq (external (EbConnectToRegion region) (\<lambda>tr. beanstalk_connect_to_region P tr region))
       (\<lambda>_. ret \<lparr>eb_region = region, eb_options = []\<rparr>)"

definition solution_stack_name :: "BeanstalkClient \<Rightarrow> string" where
  "solution_stack_name self =
     (case map_of (eb_options self) ''solution_stack_name'' of
        None \<Rightarrow> DEFAULT_SOLUTION_STACK
      | Some v \<Rightarrow> v)"

definition create_application :: "provider \<Rightarrow> BeanstalkClient \<Rightarrow> string \<Rightarrow> unit prog" where
  "create_application P self application_name =
     external (EbCreateApplication application_name)
       (\<lambda>tr. conn_create_application P tr application_name)"

text \<open>
  \<open>BeanstalkClient._environment_name\<close>: the first five characters of the hexadecimal
  SHA-1 digest of the application name, a hyphen, the environment name.
\<close>

definition beanstalk_environment_name :: "string \<Rightarrow> string \<Rightarrow> string" where
  "beanstalk_environment_name application_name environment_name =
     take 5 (sha1_hexdigest application_name) @ ''-'' @ environment_name"

definition create_environment ::
  "provider \<Rightarrow> BeanstalkClient \<Rightarrow> string \<Rightarrow> string \<Rightarrow> string \<Rightarrow> unit prog" where
  "create_environment P self application_name environment_name version_label =
     (let environment_name = beanstalk_environment_name application_name environment_name
      in external
           (EbCreateEnvironment application_name environment_name version_label
              (solution_stack_name self))
           (\<lambda>tr. conn_create_environment P tr application_name environment_name version_label
                    (solution_stack_name self)))"

definition update_environment ::
  "provider \<Rightarrow> BeanstalkClient \<Rightarrow> string \<Rightarrow> string \<Rightarrow> string \<Rightarrow> unit prog" where
  "update_environment P self application_name environment_name version_label =
     (let environment_name = beanstalk_environment_name application_name environment_name
      in external (EbUpdateEnvironment environment_name version_label)
           (\<lambda>tr. conn_update_environment P tr environment_name version_label))"

definition create_or_update_environment ::
  "provider \<Rightarrow> BeanstalkClient \<Rightarrow> string \<Rightarrow> string \<Rightarrow> string \<Rightarrow> unit prog" where
  "create_or_update_environment P self application_name environment_name version_label =
     try_except (create_environment P self application_name environment_name version_label)
       (\<lambda>e. case e of
              SomeException m \<Rightarrow>
                update_environment P self application_name environment_name version_label
            | _ \<Rightarrow> raise e)"

definition terminate_environment ::
  "provider \<Rightarrow> BeanstalkClient \<Rightarrow> string \<Rightarrow> string \<Rightarrow> unit prog" where
  "terminate_environment P self application_name environment_name =
     (let environment_name = beanstalk_environment_name application_name environment_name
      in external (EbTerminateEnvironment environment_name)
           (\<lambda>tr. conn_terminate_environment P tr environment_name))"

definition create_application_version ::
  "provider \<Rightarrow> BeanstalkClient \<Rightarrow> string \<Rightarrow> string \<Rightarrow> string \<Rightarrow> string \<Rightarrow> string \<Rightarrow> unit prog" where
  "create_application_version P self application_name version_label s3_bucket s3_key description =
     external
       (EbCreateApplicationVersion application_name version_label s3_bucket s3_key description)
       (\<lambda>tr. conn_create_application_version P tr application_name version_label s3_bucket s3_key
                description)"

subsection \<open>Client\<close>

definition Client_init :: "provider \<Rightarrow> string \<Rightarrow> Client prog" where
  "Client_init P region =
     seq (S3Client_init P region) (\<lambda>s.
     seq (BeanstalkClient_init P region) (\<lambda>b.
     seq (external GitGetApplicationName (git_get_application_name P)) (\<lambda>name.
     seq (print_stdout (''Application name: '' @ name)) (\<lambda>_.
     ret \<lparr>client_s3 = s, client_beanstalk = b, client_application_name = name\<rparr>))))"

definition create_version :: "provider \<Rightarrow> Client \<Rightarrow> string \<Rightarrow> bool \<Rightarrow> string \<Rightarrow> string prog" where
  "create_version P self version_label with_sha description =
     seq (external GitCreatePackage (git_create_package P)) (\<lambda>(sha, package_path).
     seq (upload_package P (client_s3 self) (client_application_name self) package_path)
       (\<lambda>(s3_bucket, s3_key).
     let version_label = (if with_sha then version_label @ ''-'' @ sha else version_label)
     in seq (create_application_version P (client_beanstalk self) (client_application_name self)
               version_label s3_bucket s3_key description)
          (\<lambda>_. ret version_label)))"

definition bootstrap :: "provider \<Rightarrow> Client \<Rightarrow> unit prog" where
  "bootstrap P self =
     seq (create_bucket P (client_s3 self) (client_application_name self)) (\<lambda>_.
     seq (create_application P (client_beanstalk self) (client_application_name self)) (\<lambda>_.
     seq (create_version P self ''initial'' False ''Initial code version for bootstrap'')
       (\<lambda>version_label.
     for_each
       (\<lambda>environment_name.
          create_environment P (client_beanstalk self) (client_application_name self)
            environment_name version_label)
       [''staging'', ''production''])))"

definition deploy_to_branch_environment :: "provider \<Rightarrow> Client \<Rightarrow> string \<Rightarrow> unit prog" where
  "deploy_to_branch_environment P self branch =
     (let environment_name = ''dev-'' @ branch
      in seq (create_version P self environment_name True [])
           (\<lambda>version_label.
              create_or_update_environment P (client_beanstalk self)
                (client_application_name self) environment_name version_label))"

definition terminate_branch_environment :: "provider \<Rightarrow> Client \<Rightarrow> string \<Rightarrow> unit prog" where
  "terminate_branch_environment P self branch =
     (let environment_name = ''dev-'' @ branch
      in terminate_environment P (client_beanstalk self) (client_application_name self)
           environment_name)"

definition deploy :: "provider \<Rightarrow> Client \<Rightarrow> string \<Rightarrow> string \<Rightarrow> unit prog" where
  "deploy P self version_label environment_name =
     update_environment P (client_beanstalk self) (client_application_name self)
       environment_name version_label"

section \<open>The command line of cli.py\<close>

text \<open>
  The names bound at the top level of \<open>aws.py\<close>: the imports (lines 2 to 9), the classes
  \<open>Client\<close> (line 12), \<open>S3Client\<close> (line 60), \<open>SomeException\<close> (line 89) and
  \<open>BeanstalkClient\<close> (line 96), the constant of line 93, and the attributes every
  Python module has.
\<close>

definition aws_module :: "string list" where
  "aws_module =
     [''__name__'', ''__doc__'', ''__file__'', ''__package__'', ''__builtins__'',
      ''os'', ''hashlib'', ''beanstalk'', ''s3'', ''Key'', ''S3CreateError'', ''git'',
      ''Client'', ''S3Client'', ''SomeException'', ''DEFAULT_SOLUTION_STACK'',
      ''BeanstalkClient'']"

text \<open>
  Looking a name up in a module: the value bound to it, or \<open>AttributeError\<close>. The
  handlers below are written over any module namespace \<open>aws\<close>; \<open>get_client\<close> and
  \<open>AWSError\<close> stand for what the two names denote in a namespace that binds them.
\<close>

definition module_getattr :: "string list \<Rightarrow> string \<Rightarrow> 'a \<Rightarrow> 'a prog" where
  "module_getattr m name v = (if name \<in> set m then ret v else raise (AttributeError name))"

definition default_region :: string where
  "default_region = ''eu-west-1''"

text \<open>
  A handler has no \<open>return\<close> statement: when it completes, its value is Python's
  \<open>None\<close>, modelled as \<open>None :: string option\<close>.
\<close>

definition cli_bootstrap ::
  "string list \<Rightarrow> (string option \<Rightarrow> Client prog) \<Rightarrow> provider \<Rightarrow> string option
     \<Rightarrow> string option prog" where
  "cli_bootstrap aws get_client P region =
     seq (module_getattr aws ''get_client'' get_client) (\<lambda>g.
     seq (g region) (\<lambda>client.
     seq (bootstrap P client) (\<lambda>_. ret None)))"

definition cli_create_version ::
  "string list \<Rightarrow> (string option \<Rightarrow> Client prog) \<Rightarrow> provider \<Rightarrow> string \<Rightarrow> string option
     \<Rightarrow> string option prog" where
  "cli_create_version aws get_client P version_label region =
     seq (module_getattr aws ''get_client'' get_client) (\<lambda>g.
     seq (g region) (\<lambda>client.
     seq (create_version P client version_label False []) (\<lambda>_. ret None)))"

definition cli_deploy_to_branch_environment ::
  "string list \<Rightarrow> (string option \<Rightarrow> Client prog) \<Rightarrow> provider \<Rightarrow> string option
     \<Rightarrow> string option \<Rightarrow> string option prog" where
  "cli_deploy_to_branch_environment aws get_client P branch region =
     seq (case branch of
            None \<Rightarrow> external GitGetCurrentBranch (git_get_current_branch P)
          | Some b \<Rightarrow> ret b) (\<lambda>branch.
     seq (module_getattr aws ''get_client'' get_client) (\<lambda>g.
     seq (g region) (\<lambda>client.
     seq (deploy_to_branch_environment P client branch) (\<lambda>_. ret None))))"

definition cli_terminate_branch_environment ::
  "string list \<Rightarrow> (string option \<Rightarrow> Client prog) \<Rightarrow> provider \<Rightarrow> string option
     \<Rightarrow> string option \<Rightarrow> string option prog" where
  "cli_terminate_branch_environment aws get_client P branch region =
     seq (case branch of
            None \<Rightarrow> external GitGetCurrentBranch (git_get_current_branch P)
          | Some b \<Rightarrow> ret b) (\<lambda>branch.
     seq (module_getattr aws ''get_client'' get_client) (\<lambda>g.
     seq (g region) (\<lambda>client.
     seq (terminate_branch_environment P client branch) (\<lambda>_. ret None))))"

definition cli_deploy_to_staging ::
  "string list \<Rightarrow> (string option \<Rightarrow> Client prog) \<Rightarrow> provider \<Rightarrow> string \<Rightarrow> string option
     \<Rightarrow> string option prog" where
  "cli_deploy_to_staging aws get_client P version_label region =
     seq (module_getattr aws ''get_client'' get_client) (\<lambda>g.
     seq (g region) (\<lambda>client.
     seq (deploy P client version_label ''staging'') (\<lambda>_. ret None)))"

definition cli_deploy_to_production ::
  "string list \<Rightarrow> (string option \<Rightarrow> Client prog) \<Rightarrow> provider \<Rightarrow> string \<Rightarrow> string option
     \<Rightarrow> string option prog" where
  "cli_deploy_to_production aws get_client P version_label region =
     seq (module_getattr aws ''get_client'' get_client) (\<lambda>g.
     seq (g region) (\<lambda>client.
     seq (deploy P client version_label ''production'') (\<lambda>_. ret None)))"

text \<open>A parsed command line: the command with its arguments, the region last.\<close>

datatype command =
    Bootstrap "string option"
  | CreateVersion string "string option"
  | DeployToBranchEnvironment "string option" "string option"
  | TerminateBranchEnvironment "string option" "string option"
  | DeployToStaging string "string option"
  | DeployToProduction string "string option"

text \<open>
  \<open>parser.dispatch()\<close> calls the handler of the command and prints what it returns,
  unless that is \<open>None\<close>.
\<close>

definition dispatch ::
  "string list \<Rightarrow> (string option \<Rightarrow> Client prog) \<Rightarrow> provider \<Rightarrow> command \<Rightarrow> unit prog" where
  "dispatch aws get_client P cmd =
     seq (case cmd of
            Bootstrap region \<Rightarrow> cli_bootstrap aws get_client P region
          | CreateVersion version_label region \<Rightarrow>
              cli_create_version aws get_client P version_label region
          | DeployToBranchEnvironment branch region \<Rightarrow>
              cli_deploy_to_branch_environment aws get_client P branch region
          | TerminateBranchEnvironment branch region \<Rightarrow>
              cli_terminate_branch_environment aws get_client P branch region
          | DeployToStaging version_label region \<Rightarrow>
              cli_deploy_to_staging aws get_client P version_label region
          | DeployToProduction version_label region \<Rightarrow>
              cli_deploy_to_production aws get_client P version_label region)
       (\<lambda>r. case r of None \<Rightarrow> ret () | Some s \<Rightarrow> print_stdout s)"

text \<open>
  \<open>main\<close>: when the dispatch raises, the \<open>except\<close> clause first evaluates
  \<open>aws.AWSError\<close>; only if that succeeds is the exception matched against the class,
  its message printed to the error stream and the process left with status 1.
\<close>

definition main ::
  "string list \<Rightarrow> (string option \<Rightarrow> Client prog) \<Rightarrow> (exn \<Rightarrow> bool) \<Rightarrow> provider \<Rightarrow> command
     \<Rightarrow> unit prog" where
  "main aws get_client AWSError P cmd =
     try_except (dispatch aws get_client P cmd)
       (\<lambda>e. seq (module_getattr aws ''AWSError'' AWSError)
              (\<lambda>cls. if cls e
                     then seq (print_stderr (message e)) (\<lambda>_. raise (SystemExit 1))
                     else raise e))"

section \<open>Sample collaborators\<close>

text \<open>
  A provider on which every call succeeds, and variants of it that fail at one call; they
  instantiate the theorems below at concrete inputs.
\<close>

definition ok_provider :: provider where
  "ok_provider =
     \<lparr>git_get_application_name = (\<lambda>tr. Inr ''demo-app''),
      git_create_package = (\<lambda>tr. Inr (''0a1b2c3'', ''/tmp/build/demo-app.zip'')),
      git_get_current_branch = (\<lambda>tr. Inr ''feature-x''),
      s3_connect_to_region = (\<lambda>tr region. Inr ()),
      conn_create_bucket = (\<lambda>tr name location. Inr ()),
      conn_get_bucket = (\<lambda>tr name. Inr ()),
      key_set_contents_from_filename = (\<lambda>tr bucket key filename. Inr ()),
      beanstalk_connect_to_region = (\<lambda>tr region. Inr ()),
      conn_create_application = (\<lambda>tr name. Inr ()),
      conn_create_environment = (\<lambda>tr app env label stack. Inr ()),
      conn_update_environment = (\<lambda>tr env label. Inr ()),
      conn_terminate_environment = (\<lambda>tr env. Inr ()),
      conn_create_application_version = (\<lambda>tr app label bucket key description. Inr ())\<rparr>"

definition demo_client :: Client where
  "demo_client =
     \<lparr>client_s3 = \<lparr>s3_region = ''eu-west-1'', s3_options = []\<rparr>,
      client_beanstalk = \<lparr>eb_region = ''eu-west-1'', eb_options = []\<rparr>,
      client_application_name = ''demo-app''\<rparr>"

definition bucket_owned_provider :: provider where
  "bucket_owned_provider =
     ok_provider\<lparr>conn_create_bucket :=
       (\<lambda>tr name location. Inl (S3CreateError ''BucketAlreadyOwnedByYou'' ''you already own it''))\<rparr>"

definition bucket_taken_provider :: provider where
  "bucket_taken_provider =
     ok_provider\<lparr>conn_create_bucket :=
       (\<lambda>tr name location. Inl (S3CreateError ''BucketAlreadyExists'' ''the name is taken''))\<rparr>"

definition environment_exists_provider :: provider where
  "environment_exists_provider =
     ok_provider\<lparr>conn_create_environment :=
       (\<lambda>tr app env label stack.
          Inl (BotoServerError ''InvalidParameterValue''
                 (''Environment '' @ env @ '' already exists.'')))\<rparr>"

definition environment_quota_provider :: provider where
  "environment_quota_provider =
     ok_provider\<lparr>conn_create_environment :=
       (\<lambda>tr app env label stack.
          Inl (BotoServerError ''TooManyEnvironmentsException'' ''environment limit reached''))\<rparr>"

definition production_fails_provider :: provider where
  "production_fails_provider =
     ok_provider\<lparr>conn_create_environment :=
       (\<lambda>tr app env label stack.
          if env = beanstalk_environment_name app ''production''
          then Inl (BotoServerError ''InsufficientPrivilegesException'' ''access denied'')
          else Inr ())\<rparr>"

text \<open>
  A sample of what \<open>get_client\<close> could denote in a module that binds the name: it
  builds a \<open>Client\<close> for the region given, or for the default region.
\<close>

definition sample_get_client :: "provider \<Rightarrow> string option \<Rightarrow> Client prog" where
  "sample_get_client P region =
     Client_init P (case region of None \<Rightarrow> default_region | Some r \<Rightarrow> r)"


text \<open>The lines printed to the standard output, in order.\<close>

fun printed :: "trace \<Rightarrow> string list" where
  "printed [] = []"
| "printed (Stdout s # tr) = s # printed tr"
| "printed (ev # tr) = printed tr"

text \<open>The commands that ask git for the current branch: the two with a branch left out.\<close>

fun branch_from_git :: "command \<Rightarrow> bool" where
  "branch_from_git (DeployToBranchEnvironment None region) = True"
| "branch_from_git (TerminateBranchEnvironment None region) = True"
| "branch_from_git cmd = False"

section \<open>Basic rules of programs\<close>

lemma seq_external:
  "seq (external ev f) g tr =
     (case f tr of Inl e \<Rightarrow> (Inl e, tr @ [ev]) | Inr x \<Rightarrow> g x (tr @ [ev]))"
  by (simp add: seq_def external_def split: sum.splits)

lemma seq_ret: "seq (ret x) g tr = g x tr"
  by (simp add: seq_def ret_def)

lemma seq_raise: "seq (raise e) g tr = (Inl e, tr)"
  by (simp add: seq_def raise_def)

lemma seq_assoc: "seq (seq m f) g = seq m (\<lambda>x. seq (f x) g)"
  by (rule ext) (simp add: seq_def split: prod.splits sum.splits)


section \<open>Bucket creation\<close>


text \<open>
  Claim C6. When the connection's \<open>create_bucket\<close> raises, \<open>S3Client.create_bucket\<close>
  succeeds exactly when the exception is an \<open>S3CreateError\<close> whose error code is
  \<open>BucketAlreadyOwnedByYou\<close>; every other exception reaches the caller unchanged. The
  call is made once in both cases.
\<close>

theorem create_bucket_swallows_only_owned:
  assumes "conn_create_bucket P tr application_name (bucket_location (s3_region self)) = Inl e"
  shows "create_bucket P self application_name tr =
           (if (\<exists>m. e = S3CreateError ''BucketAlreadyOwnedByYou'' m) then Inr () else Inl e,
            tr @ [S3CreateBucket application_name (bucket_location (s3_region self))])"
  using assms
  by (cases e)
     (auto simp: create_bucket_def try_except_def external_def ret_def raise_def Let_def)

theorem create_bucket_swallows_only_owned_witness:
  "create_bucket bucket_owned_provider (client_s3 demo_client) ''demo-app'' [] =
     (Inr (), [S3CreateBucket ''demo-app'' ''EU''])
   \<and> create_bucket bucket_taken_provider (client_s3 demo_client) ''demo-app'' [] =
       (Inl (S3CreateError ''BucketAlreadyExists'' ''the name is taken''),
        [S3CreateBucket ''demo-app'' ''EU''])"
  using create_bucket_swallows_only_owned
          [of bucket_owned_provider "[]" "''demo-app''" "client_s3 demo_client"
              "S3CreateError ''BucketAlreadyOwnedByYou'' ''you already own it''"]
        create_bucket_swallows_only_owned
          [of bucket_taken_provider "[]" "''demo-app''" "client_s3 demo_client"
              "S3CreateError ''BucketAlreadyExists'' ''the name is taken''"]
  by (simp add: bucket_owned_provider_def bucket_taken_provider_def ok_provider_def
        demo_client_def bucket_location_def startswith_def)

section \<open>Create-or-update reconciliation\<close>

text \<open>
  The fallback of \<open>create_or_update_environment\<close> is taken for \<open>SomeException\<close>, the
  class of \<open>aws.py\<close>, and then \<open>update_environment\<close> is called once, with the same
  application name, environment name and version label.
\<close>

lemma create_or_update_environment_SomeException:
  assumes "conn_create_environment P tr application_name
             (beanstalk_environment_name application_name environment_name) version_label
             (solution_stack_name self) = Inl (SomeException m)"
  shows "create_or_update_environment P self application_name environment_name version_label tr =
           (conn_update_environment P
              (tr @ [EbCreateEnvironment application_name
                       (beanstalk_environment_name application_name environment_name)
                       version_label (solution_stack_name self)])
              (beanstalk_environment_name application_name environment_name) version_label,
            tr @ [EbCreateEnvironment application_name
                    (beanstalk_environment_name application_name environment_name)
                    version_label (solution_stack_name self),
                  EbUpdateEnvironment
                    (beanstalk_environment_name application_name environment_name)
                    version_label])"
  using assms
  by (simp add: create_or_update_environment_def create_environment_def update_environment_def
        try_except_def external_def Let_def)

text \<open>
  Claim C1, at the error the Beanstalk connection answers when the environment exists: a
  \<open>BotoServerError\<close> with code \<open>InvalidParameterValue\<close>. It is not a
  \<open>SomeException\<close>: the error reaches the caller and \<open>update_environment\<close> is not
  called.
\<close>

theorem create_or_update_environment_existing:
  "create_or_update_environment environment_exists_provider (client_beanstalk demo_client)
     ''demo-app'' ''dev-feature-x'' ''dev-feature-x-0a1b2c3'' [] =
     (Inl (BotoServerError ''InvalidParameterValue''
             (''Environment '' @ beanstalk_environment_name ''demo-app'' ''dev-feature-x''
                @ '' already exists.'')),
      [EbCreateEnvironment ''demo-app'' (beanstalk_environment_name ''demo-app'' ''dev-feature-x'')
         ''dev-feature-x-0a1b2c3'' DEFAULT_SOLUTION_STACK])"
  by (simp add: create_or_update_environment_def create_environment_def try_except_def
        external_def raise_def Let_def environment_exists_provider_def ok_provider_def
        demo_client_def solution_stack_name_def)

text \<open>
  Claim C2. When the creation fails with any exception other than \<open>SomeException\<close>, the
  one the code takes for "already exists", that exception reaches the caller unchanged
  and the only call made is the creation: \<open>update_environment\<close> is not called.
\<close>

theorem create_or_update_environment_propagates:
  assumes "conn_create_environment P tr application_name
             (beanstalk_environment_name application_name environment_name) version_label
             (solution_stack_name self) = Inl e"
      and "\<forall>m. e \<noteq> SomeException m"
  shows "create_or_update_environment P self application_name environment_name version_label tr =
           (Inl e,
            tr @ [EbCreateEnvironment application_name
                    (beanstalk_environment_name application_name environment_name)
                    version_label (solution_stack_name self)])"
  using assms
  by (cases e)
     (simp_all add: create_or_update_environment_def create_environment_def try_except_def
        external_def raise_def Let_def)

theorem create_or_update_environment_propagates_witness:
  "create_or_update_environment environment_quota_provider (client_beanstalk demo_client)
     ''demo-app'' ''dev-feature-x'' ''dev-feature-x-0a1b2c3'' [] =
     (Inl (BotoServerError ''TooManyEnvironmentsException'' ''environment limit reached''),
      [EbCreateEnvironment ''demo-app'' (beanstalk_environment_name ''demo-app'' ''dev-feature-x'')
         ''dev-feature-x-0a1b2c3'' DEFAULT_SOLUTION_STACK])"
  using create_or_update_environment_propagates
          [of environment_quota_provider "[]" "''demo-app''" "''dev-feature-x''"
              "''dev-feature-x-0a1b2c3''" "client_beanstalk demo_client"
              "BotoServerError ''TooManyEnvironmentsException'' ''environment limit reached''"]
  by (simp add: environment_quota_provider_def ok_provider_def demo_client_def
        solution_stack_name_def)

section \<open>Versions\<close>

text \<open>
  Claim C4. When packaging reports the content hash \<open>sha\<close> and the upload and the
  registration succeed, \<open>create_version\<close> registers the version under
  \<open>version_label-sha\<close> when the flag \<open>with_sha\<close> is set and under \<open>version_label\<close>
  when it is not, and returns exactly the label it registered. The four calls are made
  once each, in this order.
\<close>

theorem create_version_label:
  assumes "app = client_application_name self"
      and "key = basename package_path"
      and "label = (if with_sha then version_label @ ''-'' @ sha else version_label)"
      and "git_create_package P tr = Inr (sha, package_path)"
      and "conn_get_bucket P (tr @ [GitCreatePackage]) app = Inr ()"
      and "key_set_contents_from_filename P (tr @ [GitCreatePackage, S3GetBucket app])
             app key package_path = Inr ()"
      and "conn_create_application_version P
             (tr @ [GitCreatePackage, S3GetBucket app,
                    S3SetContentsFromFilename app key package_path])
             app label app key description = Inr ()"
  shows "create_version P self version_label with_sha description tr =
           (Inr label,
            tr @ [GitCreatePackage, S3GetBucket app,
                  S3SetContentsFromFilename app key package_path,
                  EbCreateApplicationVersion app label app key description])"
  using assms
  by (simp add: create_version_def upload_package_def create_application_version_def
        seq_assoc seq_external seq_ret ret_def Let_def)

theorem create_version_label_witness:
  "create_version ok_provider demo_client ''v42'' True ''nightly'' [] =
     (Inr ''v42-0a1b2c3'',
      [GitCreatePackage, S3GetBucket ''demo-app'',
       S3SetContentsFromFilename ''demo-app'' ''demo-app.zip'' ''/tmp/build/demo-app.zip'',
       EbCreateApplicationVersion ''demo-app'' ''v42-0a1b2c3'' ''demo-app'' ''demo-app.zip''
         ''nightly''])
   \<and> create_version ok_provider demo_client ''v42'' False ''nightly'' [] =
     (Inr ''v42'',
      [GitCreatePackage, S3GetBucket ''demo-app'',
       S3SetContentsFromFilename ''demo-app'' ''demo-app.zip'' ''/tmp/build/demo-app.zip'',
       EbCreateApplicationVersion ''demo-app'' ''v42'' ''demo-app'' ''demo-app.zip''
         ''nightly''])"
  using create_version_label
          [of "''demo-app''" demo_client "''demo-app.zip''" "''/tmp/build/demo-app.zip''"
              "''v42-0a1b2c3''" True "''v42''" "''0a1b2c3''" ok_provider "[]" "''nightly''"]
        create_version_label
          [of "''demo-app''" demo_client "''demo-app.zip''" "''/tmp/build/demo-app.zip''"
              "''v42''" False "''v42''" "''0a1b2c3''" ok_provider "[]" "''nightly''"]
  by (simp add: ok_provider_def demo_client_def basename_def)

text \<open>
  Whatever the collaborators answer, a label that \<open>create_version\<close> returns is the label
  of the registration, which is the last call made, and its suffix is the hash that
  packaging reported in this call.
\<close>

lemma create_version_returns_registered:
  assumes "create_version P self version_label with_sha description tr = (Inr l, tr')"
  shows "\<exists>sha package_path.
           git_create_package P tr = Inr (sha, package_path)
           \<and> l = (if with_sha then version_label @ ''-'' @ sha else version_label)
           \<and> tr' = tr @ [GitCreatePackage, S3GetBucket (client_application_name self),
                         S3SetContentsFromFilename (client_application_name self)
                           (basename package_path) package_path,
                         EbCreateApplicationVersion (client_application_name self) l
                           (client_application_name self) (basename package_path) description]"
  using assms
  by (auto simp: create_version_def upload_package_def create_application_version_def
        seq_assoc seq_external seq_ret ret_def Let_def
        split: sum.splits prod.splits if_splits)

section \<open>Bootstrap\<close>

text \<open>
  Claim C5. \<open>bootstrap\<close> calls, in this order and once each: the bucket creation, the
  creation of the application, the creation of the version \<open>initial\<close> (packaging,
  upload, registration), the creation of the environment \<open>staging\<close> and the creation of
  the environment \<open>production\<close>. Its result is the answer of the last call: when that
  one fails, the error is returned and the trace ends there, with one creation of
  \<open>staging\<close> and no further call.
\<close>

theorem bootstrap_sequence:
  assumes "app = client_application_name self"
      and "location = bucket_location (s3_region (client_s3 self))"
      and "stack = solution_stack_name (client_beanstalk self)"
      and "key = basename package_path"
      and "t1 = tr @ [S3CreateBucket app location]"
      and "t2 = t1 @ [EbCreateApplication app]"
      and "t3 = t2 @ [GitCreatePackage]"
      and "t4 = t3 @ [S3GetBucket app]"
      and "t5 = t4 @ [S3SetContentsFromFilename app key package_path]"
      and "t6 = t5 @ [EbCreateApplicationVersion app ''initial'' app key
                        ''Initial code version for bootstrap'']"
      and "t7 = t6 @ [EbCreateEnvironment app (beanstalk_environment_name app ''staging'')
                        ''initial'' stack]"
      and "conn_create_bucket P tr app location = Inr ()
           \<or> (\<exists>m. conn_create_bucket P tr app location =
                    Inl (S3CreateError ''BucketAlreadyOwnedByYou'' m))"
      and "conn_create_application P t1 app = Inr ()"
      and "git_create_package P t2 = Inr (sha, package_path)"
      and "conn_get_bucket P t3 app = Inr ()"
      and "key_set_contents_from_filename P t4 app key package_path = Inr ()"
      and "conn_create_application_version P t5 app ''initial'' app key
             ''Initial code version for bootstrap'' = Inr ()"
      and "conn_create_environment P t6 app (beanstalk_environment_name app ''staging'')
             ''initial'' stack = Inr ()"
  shows "bootstrap P self tr =
           (conn_create_environment P t7 app (beanstalk_environment_name app ''production'')
              ''initial'' stack,
            t7 @ [EbCreateEnvironment app (beanstalk_environment_name app ''production'')
                    ''initial'' stack])"
proof -
  have bucket: "create_bucket P (client_s3 self) app tr = (Inr (), t1)"
    using assms(2,5,12)
    by (auto simp: create_bucket_def try_except_def external_def ret_def raise_def Let_def)
  have version:
    "create_version P self ''initial'' False ''Initial code version for bootstrap'' t2 =
       (Inr ''initial'', t6)"
    using assms(1,4,7-10,14-17)
    by (simp add: create_version_def upload_package_def create_application_version_def
          seq_assoc seq_external seq_ret ret_def Let_def)
  have application: "create_application P (client_beanstalk self) app t1 = (Inr (), t2)"
    using assms(6,13) by (simp add: create_application_def external_def)
  have staging:
    "create_environment P (client_beanstalk self) app ''staging'' ''initial'' t6 = (Inr (), t7)"
    using assms(3,11,18) by (simp add: create_environment_def external_def Let_def)
  have production:
    "create_environment P (client_beanstalk self) app ''production'' ''initial'' t7 =
       (conn_create_environment P t7 app (beanstalk_environment_name app ''production'')
          ''initial'' stack,
        t7 @ [EbCreateEnvironment app (beanstalk_environment_name app ''production'')
                ''initial'' stack])"
    using assms(3) by (simp add: create_environment_def external_def Let_def)
  show ?thesis
    using bucket application version staging production assms(1)
    by (simp add: bootstrap_def seq_def ret_def split: sum.splits)
qed

theorem bootstrap_sequence_witness:
  "bootstrap production_fails_provider demo_client [] =
     (Inl (BotoServerError ''InsufficientPrivilegesException'' ''access denied''),
      [S3CreateBucket ''demo-app'' ''EU'',
       EbCreateApplication ''demo-app'',
       GitCreatePackage,
       S3GetBucket ''demo-app'',
       S3SetContentsFromFilename ''demo-app'' ''demo-app.zip'' ''/tmp/build/demo-app.zip'',
       EbCreateApplicationVersion ''demo-app'' ''initial'' ''demo-app'' ''demo-app.zip''
         ''Initial code version for bootstrap'',
       EbCreateEnvironment ''demo-app'' (beanstalk_environment_name ''demo-app'' ''staging'')
         ''initial'' DEFAULT_SOLUTION_STACK,
       EbCreateEnvironment ''demo-app'' (beanstalk_environment_name ''demo-app'' ''production'')
         ''initial'' DEFAULT_SOLUTION_STACK])
   \<and> bootstrap ok_provider demo_client [] =
     (Inr (),
      [S3CreateBucket ''demo-app'' ''EU'',
       EbCreateApplication ''demo-app'',
       GitCreatePackage,
       S3GetBucket ''demo-app'',
       S3SetContentsFromFilename ''demo-app'' ''demo-app.zip'' ''/tmp/build/demo-app.zip'',
       EbCreateApplicationVersion ''demo-app'' ''initial'' ''demo-app'' ''demo-app.zip''
         ''Initial code version for bootstrap'',
       EbCreateEnvironment ''demo-app'' (beanstalk_environment_name ''demo-app'' ''staging'')
         ''initial'' DEFAULT_SOLUTION_STACK,
       EbCreateEnvironment ''demo-app'' (beanstalk_environment_name ''demo-app'' ''production'')
         ''initial'' DEFAULT_SOLUTION_STACK])"
proof -
  have names: "beanstalk_environment_name ''demo-app'' ''staging'' \<noteq>
                 beanstalk_environment_name ''demo-app'' ''production''"
    by (simp add: beanstalk_environment_name_def)
  have fails:
    "bootstrap production_fails_provider demo_client [] =
       (conn_create_environment production_fails_provider
          [S3CreateBucket ''demo-app'' ''EU'', EbCreateApplication ''demo-app'',
           GitCreatePackage, S3GetBucket ''demo-app'',
           S3SetContentsFromFilename ''demo-app'' ''demo-app.zip'' ''/tmp/build/demo-app.zip'',
           EbCreateApplicationVersion ''demo-app'' ''initial'' ''demo-app'' ''demo-app.zip''
             ''Initial code version for bootstrap'',
           EbCreateEnvironment ''demo-app'' (beanstalk_environment_name ''demo-app'' ''staging'')
             ''initial'' DEFAULT_SOLUTION_STACK]
          ''demo-app'' (beanstalk_environment_name ''demo-app'' ''production'') ''initial''
          DEFAULT_SOLUTION_STACK,
        [S3CreateBucket ''demo-app'' ''EU'', EbCreateApplication ''demo-app'',
         GitCreatePackage, S3GetBucket ''demo-app'',
         S3SetContentsFromFilename ''demo-app'' ''demo-app.zip'' ''/tmp/build/demo-app.zip'',
         EbCreateApplicationVersion ''demo-app'' ''initial'' ''demo-app'' ''demo-app.zip''
           ''Initial code version for bootstrap'',
         EbCreateEnvironment ''demo-app'' (beanstalk_environment_name ''demo-app'' ''staging'')
           ''initial'' DEFAULT_SOLUTION_STACK]
        @ [EbCreateEnvironment ''demo-app''
             (beanstalk_environment_name ''demo-app'' ''production'') ''initial''
             DEFAULT_SOLUTION_STACK])"
    by (rule bootstrap_sequence
              [where sha = "''0a1b2c3''" and package_path = "''/tmp/build/demo-app.zip''"
                 and location = "''EU''" and key = "''demo-app.zip''"])
       (simp_all add: production_fails_provider_def ok_provider_def demo_client_def
          basename_def bucket_location_def startswith_def solution_stack_name_def names)
  have succeeds:
    "bootstrap ok_provider demo_client [] =
       (conn_create_environment ok_provider
          [S3CreateBucket ''demo-app'' ''EU'', EbCreateApplication ''demo-app'',
           GitCreatePackage, S3GetBucket ''demo-app'',
           S3SetContentsFromFilename ''demo-app'' ''demo-app.zip'' ''/tmp/build/demo-app.zip'',
           EbCreateApplicationVersion ''demo-app'' ''initial'' ''demo-app'' ''demo-app.zip''
             ''Initial code version for bootstrap'',
           EbCreateEnvironment ''demo-app'' (beanstalk_environment_name ''demo-app'' ''staging'')
             ''initial'' DEFAULT_SOLUTION_STACK]
          ''demo-app'' (beanstalk_environment_name ''demo-app'' ''production'') ''initial''
          DEFAULT_SOLUTION_STACK,
        [S3CreateBucket ''demo-app'' ''EU'', EbCreateApplication ''demo-app'',
         GitCreatePackage, S3GetBucket ''demo-app'',
         S3SetContentsFromFilename ''demo-app'' ''demo-app.zip'' ''/tmp/build/demo-app.zip'',
         EbCreateApplicationVersion ''demo-app'' ''initial'' ''demo-app'' ''demo-app.zip''
           ''Initial code version for bootstrap'',
         EbCreateEnvironment ''demo-app'' (beanstalk_environment_name ''demo-app'' ''staging'')
           ''initial'' DEFAULT_SOLUTION_STACK]
        @ [EbCreateEnvironment ''demo-app''
             (beanstalk_environment_name ''demo-app'' ''production'') ''initial''
             DEFAULT_SOLUTION_STACK])"
    by (rule bootstrap_sequence
              [where sha = "''0a1b2c3''" and package_path = "''/tmp/build/demo-app.zip''"
                 and location = "''EU''" and key = "''demo-app.zip''"])
       (simp_all add: ok_provider_def demo_client_def
          basename_def bucket_location_def startswith_def solution_stack_name_def)
  show ?thesis
    using fails succeeds
    by (simp add: production_fails_provider_def ok_provider_def)
qed

section \<open>Branch environments\<close>

text \<open>
  Claim C7. For a branch \<open>B\<close>, \<open>deploy_to_branch_environment\<close> creates a version with
  base label \<open>dev-B\<close> and the hash suffix, so that the label registered is
  \<open>dev-B-sha\<close>, and then runs the reconciliation for the environment \<open>dev-B\<close> with
  that label: its first call is the creation of the environment.
\<close>

theorem deploy_to_branch_environment_steps:
  assumes "app = client_application_name self"
      and "key = basename package_path"
      and "environment_name = ''dev-'' @ branch"
      and "label = environment_name @ ''-'' @ sha"
      and "t4 = tr @ [GitCreatePackage, S3GetBucket app,
                      S3SetContentsFromFilename app key package_path,
                      EbCreateApplicationVersion app label app key []]"
      and "git_create_package P tr = Inr (sha, package_path)"
      and "conn_get_bucket P (tr @ [GitCreatePackage]) app = Inr ()"
      and "key_set_contents_from_filename P (tr @ [GitCreatePackage, S3GetBucket app])
             app key package_path = Inr ()"
      and "conn_create_application_version P
             (tr @ [GitCreatePackage, S3GetBucket app,
                    S3SetContentsFromFilename app key package_path])
             app label app key [] = Inr ()"
  shows "deploy_to_branch_environment P self branch tr =
           create_or_update_environment P (client_beanstalk self) app environment_name label t4
         \<and> (\<exists>rest. snd (deploy_to_branch_environment P self branch tr) =
               t4 @ [EbCreateEnvironment app
                       (beanstalk_environment_name app environment_name) label
                       (solution_stack_name (client_beanstalk self))] @ rest)"
proof -
  have version: "create_version P self environment_name True [] tr = (Inr label, t4)"
    using assms
    by (simp add: create_version_def upload_package_def create_application_version_def
          seq_assoc seq_external seq_ret ret_def Let_def)
  have step: "deploy_to_branch_environment P self branch tr =
                create_or_update_environment P (client_beanstalk self) app environment_name
                  label t4"
    using version assms(1,3) by (simp add: deploy_to_branch_environment_def seq_def Let_def)
  have "\<exists>rest. snd (create_or_update_environment P (client_beanstalk self) app
                      environment_name label t4) =
          t4 @ [EbCreateEnvironment app (beanstalk_environment_name app environment_name) label
                  (solution_stack_name (client_beanstalk self))] @ rest"
    by (simp add: create_or_update_environment_def create_environment_def
          update_environment_def try_except_def external_def raise_def Let_def
          split: sum.splits exn.splits)
  with step show ?thesis by simp
qed

theorem deploy_to_branch_environment_steps_witness:
  "deploy_to_branch_environment ok_provider demo_client ''feature-x'' [] =
     (Inr (),
      [GitCreatePackage, S3GetBucket ''demo-app'',
       S3SetContentsFromFilename ''demo-app'' ''demo-app.zip'' ''/tmp/build/demo-app.zip'',
       EbCreateApplicationVersion ''demo-app'' ''dev-feature-x-0a1b2c3'' ''demo-app''
         ''demo-app.zip'' [],
       EbCreateEnvironment ''demo-app''
         (beanstalk_environment_name ''demo-app'' ''dev-feature-x'') ''dev-feature-x-0a1b2c3''
         DEFAULT_SOLUTION_STACK])"
proof -
  have "deploy_to_branch_environment ok_provider demo_client ''feature-x'' [] =
          create_or_update_environment ok_provider (client_beanstalk demo_client) ''demo-app''
            ''dev-feature-x'' ''dev-feature-x-0a1b2c3''
            [GitCreatePackage, S3GetBucket ''demo-app'',
             S3SetContentsFromFilename ''demo-app'' ''demo-app.zip''
               ''/tmp/build/demo-app.zip'',
             EbCreateApplicationVersion ''demo-app'' ''dev-feature-x-0a1b2c3'' ''demo-app''
               ''demo-app.zip'' []]"
    by (rule deploy_to_branch_environment_steps
              [where sha = "''0a1b2c3''" and package_path = "''/tmp/build/demo-app.zip''"
                 and key = "''demo-app.zip''", THEN conjunct1])
       (simp_all add: ok_provider_def demo_client_def basename_def)
  then show ?thesis
    by (simp add: create_or_update_environment_def create_environment_def try_except_def
          external_def Let_def ok_provider_def demo_client_def solution_stack_name_def)
qed

section \<open>Environment names\<close>

lemma hex_digit_in_hex_chars: "hex_digit n \<in> set hex_chars"
  unfolding hex_digit_def by (rule nth_mem) (simp add: hex_chars_def)

lemma length_hex_word: "length (hex_word w) = 8"
  by (simp add: hex_word_def)

lemma set_hex_word: "set (hex_word w) \<subseteq> set hex_chars"
  by (auto simp: hex_word_def hex_digit_in_hex_chars)

lemma length_sha1_hexdigest: "length (sha1_hexdigest s) = 40"
  by (cases "sha1_blocks (be_words (sha1_pad s))")
     (simp add: sha1_hexdigest_def length_hex_word)

lemma set_sha1_hexdigest: "set (sha1_hexdigest s) \<subseteq> set hex_chars"
  using set_hex_word
  by (cases "sha1_blocks (be_words (sha1_pad s))") (auto simp: sha1_hexdigest_def)

lemma replicate_numeral_step: "replicate (numeral k) x = x # replicate (pred_numeral k) x"
  by (simp add: numeral_eq_Suc)

lemma schedule_numeral:
  "schedule (numeral k) w =
     schedule (pred_numeral k)
       (w @ [rotl 1 (w ! (length w - 3) XOR w ! (length w - 8) XOR w ! (length w - 14)
               XOR w ! (length w - 16))])"
  by (simp add: numeral_eq_Suc Let_def)

text \<open>The digest of \<open>demo-app\<close>, computed step by step: padding, compression, printing.\<close>

lemma sha1_pad_demo_app:
  "be_words (sha1_pad ''demo-app'') =
     [0x64656d6f, 0x2d617070, 0x80000000, 0, 0, 0, 0, 0, 0, 0, 0, 0, 0, 0, 0, 0x40]"
  by (simp add: sha1_pad_def upt_rec replicate_numeral_step)

lemma sha1_blocks_demo_app:
  "sha1_blocks [0x64656d6f, 0x2d617070, 0x80000000, 0, 0, 0, 0, 0, 0, 0, 0, 0, 0, 0, 0, 0x40] =
     (0xeda33224, 0x80e77842, 0xa9cc706b, 0x7b4145aa, 0x05025fbe)"
  by (simp add: sha1_blocks_def sha1_block_def schedule_numeral rotl_def ch_def parity_def
        maj_def Let_def)

lemma hex_state_demo_app:
  "hex_state (0xeda33224, 0x80e77842, 0xa9cc706b, 0x7b4145aa, 0x05025fbe) =
     ''eda3322480e77842a9cc706b7b4145aa05025fbe''"
  by (simp add: hex_word_def hex_digit_def hex_chars_def upt_rec drop_bit_eq_div)

lemma sha1_hexdigest_demo_app:
  "sha1_hexdigest ''demo-app'' = ''eda3322480e77842a9cc706b7b4145aa05025fbe''"
  by (simp only: sha1_hexdigest_def sha1_pad_demo_app sha1_blocks_demo_app hex_state_demo_app)

text \<open>
  Claim C3. The environment identifier is the first five characters of the hexadecimal
  SHA-1 digest of the application name, one hyphen, and the environment name. The digest
  has forty hexadecimal digits, so the prefix always has exactly five.
\<close>

theorem beanstalk_environment_name_format:
  "beanstalk_environment_name application_name environment_name =
     take 5 (sha1_hexdigest application_name) @ ''-'' @ environment_name
   \<and> length (take 5 (sha1_hexdigest application_name)) = 5
   \<and> set (take 5 (sha1_hexdigest application_name)) \<subseteq> set hex_chars
   \<and> length (beanstalk_environment_name application_name environment_name) =
       6 + length environment_name"
proof -
  have "set (take 5 (sha1_hexdigest application_name)) \<subseteq> set (sha1_hexdigest application_name)"
    by (rule set_take_subset)
  then show ?thesis
    using set_sha1_hexdigest [of application_name]
    by (simp add: beanstalk_environment_name_def length_sha1_hexdigest)
qed

theorem beanstalk_environment_name_demo_app:
  "beanstalk_environment_name ''demo-app'' ''staging'' = ''eda33-staging''"
  using beanstalk_environment_name_format [of "''demo-app''" "''staging''"]
  by (simp add: sha1_hexdigest_demo_app)

section \<open>The command line\<close>

lemma printed_append: "printed (xs @ ys) = printed xs @ printed ys"
  by (induction xs rule: printed.induct) simp_all

lemma aws_module_get_client:
  "module_getattr aws_module ''get_client'' g = raise (AttributeError ''get_client'')"
  by (simp add: module_getattr_def aws_module_def)

lemma aws_module_AWSError:
  "module_getattr aws_module ''AWSError'' c = raise (AttributeError ''AWSError'')"
  by (simp add: module_getattr_def aws_module_def)

lemma create_version_prints_nothing:
  "printed (snd (create_version P self version_label with_sha description tr)) = printed tr"
  by (simp add: create_version_def upload_package_def create_application_version_def
        seq_def external_def ret_def Let_def printed_append
        split: sum.splits prod.splits)

text \<open>
  Claim C8 fails on \<open>aws.py\<close> as it is: the command \<open>create-version v42\<close> ends with
  the \<open>AttributeError\<close> for \<open>get_client\<close>; no label is returned and nothing is
  printed.
\<close>

theorem cli_create_version_no_label:
  "cli_create_version aws_module (sample_get_client ok_provider) ok_provider ''v42'' None [] =
     (Inl (AttributeError ''get_client''), [])
   \<and> dispatch aws_module (sample_get_client ok_provider) ok_provider
         (CreateVersion ''v42'' None) [] =
       (Inl (AttributeError ''get_client''), [])"
  by (simp add: dispatch_def cli_create_version_def aws_module_get_client seq_assoc seq_raise)

text \<open>
  Claim C8, amended. In every module namespace, bound to \<open>get_client\<close> or not, the
  handler of \<open>create-version\<close> never returns the label: it ends with an exception or
  with \<open>None\<close>. Neither the handler nor the dispatch prints anything: what is printed
  is what the call of \<open>get_client\<close> printed, when the name is bound.
\<close>

theorem cli_create_version_returns_None:
  "((\<exists>e. fst (cli_create_version aws get_client P version_label region tr) = Inl e)
      \<or> fst (cli_create_version aws get_client P version_label region tr) = Inr None)
   \<and> printed (snd (cli_create_version aws get_client P version_label region tr)) =
       printed (if ''get_client'' \<in> set aws then snd (get_client region tr) else tr)
   \<and> printed (snd (dispatch aws get_client P (CreateVersion version_label region) tr)) =
       printed (if ''get_client'' \<in> set aws then snd (get_client region tr) else tr)"
proof (cases "''get_client'' \<in> set aws")
  case False
  then show ?thesis
    by (simp add: dispatch_def cli_create_version_def module_getattr_def seq_assoc seq_raise)
next
  case True
  obtain r t where g: "get_client region tr = (r, t)"
    by (cases "get_client region tr")
  show ?thesis
  proof (cases r)
    case (Inl e)
    with True g show ?thesis
      by (simp add: dispatch_def cli_create_version_def module_getattr_def seq_def ret_def)
  next
    case (Inr client)
    obtain r' t' where v: "create_version P client version_label False [] t = (r', t')"
      by (cases "create_version P client version_label False [] t")
    have "printed t' = printed t"
      using create_version_prints_nothing [of P client version_label False "[]" t] v by simp
    with True g Inr v show ?thesis
      by (cases r')
         (simp_all add: dispatch_def cli_create_version_def module_getattr_def seq_def ret_def)
  qed
qed

text \<open>
  In a namespace that binds \<open>get_client\<close> to the sample above, the command registers
  the version under the label given and returns \<open>None\<close>; the only line printed is the
  one of \<open>Client.__init__\<close>.
\<close>

lemma cli_create_version_sample:
  "cli_create_version (''get_client'' # aws_module) (sample_get_client ok_provider) ok_provider
     ''v42'' None [] =
     (Inr None,
      [S3ConnectToRegion ''eu-west-1'', EbConnectToRegion ''eu-west-1'', GitGetApplicationName,
       Stdout ''Application name: demo-app'',
       GitCreatePackage, S3GetBucket ''demo-app'',
       S3SetContentsFromFilename ''demo-app'' ''demo-app.zip'' ''/tmp/build/demo-app.zip'',
       EbCreateApplicationVersion ''demo-app'' ''v42'' ''demo-app'' ''demo-app.zip'' []])"
  by (simp add: cli_create_version_def module_getattr_def sample_get_client_def Client_init_def
        S3Client_init_def BeanstalkClient_init_def create_version_def upload_package_def
        create_application_version_def seq_def external_def ret_def print_stdout_def Let_def
        ok_provider_def default_region_def basename_def)

text \<open>
  Claim C9. \<open>aws.py\<close> binds neither \<open>get_client\<close> nor \<open>AWSError\<close>. Every command
  therefore fails in its handler with the \<open>AttributeError\<close> for \<open>get_client\<close>, and
  \<open>main\<close> ends with the \<open>AttributeError\<close> for \<open>AWSError\<close>, raised by the
  \<open>except\<close> clause itself, whose body never runs: nothing is written to the error
  stream and no \<open>SystemExit\<close> is raised. No call to S3 or Elastic Beanstalk is made. The
  only call that can precede the failure is the query of the current branch, made by the
  two branch commands when the branch is left out; if that query fails, the handler ends
  with its error instead.
\<close>

theorem cli_always_fails:
  "''get_client'' \<notin> set aws_module
   \<and> ''AWSError'' \<notin> set aws_module
   \<and> dispatch aws_module get_client P cmd tr =
       (if branch_from_git cmd
        then (case git_get_current_branch P tr of
                Inl e \<Rightarrow> Inl e
              | Inr b \<Rightarrow> Inl (AttributeError ''get_client''),
              tr @ [GitGetCurrentBranch])
        else (Inl (AttributeError ''get_client''), tr))
   \<and> main aws_module get_client AWSError P cmd tr =
       (Inl (AttributeError ''AWSError''),
        if branch_from_git cmd then tr @ [GitGetCurrentBranch] else tr)"
proof -
  have names: "''get_client'' \<notin> set aws_module" "''AWSError'' \<notin> set aws_module"
    by (simp_all add: aws_module_def)
  have d: "dispatch aws_module get_client P cmd tr =
       (if branch_from_git cmd
        then (case git_get_current_branch P tr of
                Inl e \<Rightarrow> Inl e
              | Inr b \<Rightarrow> Inl (AttributeError ''get_client''),
              tr @ [GitGetCurrentBranch])
        else (Inl (AttributeError ''get_client''), tr))"
  proof (cases cmd)
    case (DeployToBranchEnvironment branch region)
    then show ?thesis
      by (cases branch)
         (simp_all add: dispatch_def cli_deploy_to_branch_environment_def
            aws_module_get_client seq_raise seq_ret seq_assoc seq_external raise_def
            split: sum.splits)
  next
    case (TerminateBranchEnvironment branch region)
    then show ?thesis
      by (cases branch)
         (simp_all add: dispatch_def cli_terminate_branch_environment_def
            aws_module_get_client seq_raise seq_ret seq_assoc seq_external raise_def
            split: sum.splits)
  qed (simp_all add: dispatch_def cli_bootstrap_def cli_create_version_def
         cli_deploy_to_staging_def cli_deploy_to_production_def aws_module_get_client
         seq_raise seq_assoc)
  have "main aws_module get_client AWSError P cmd tr =
       (Inl (AttributeError ''AWSError''),
        if branch_from_git cmd then tr @ [GitGetCurrentBranch] else tr)"
    unfolding main_def try_except_def d
    by (simp add: aws_module_AWSError seq_raise raise_def split: sum.splits)
  with names d show ?thesis by simp
qed


end
